theory Spec2Isabelle
  imports Complex_Main
begin

section \<open>The time tracker of \<open>src/extension.ts\<close>\<close>

text \<open>
  The file holds two variants of the extension. The development follows the second
  one (the hierarchical store \<open>projectStats[project][date]\<close> kept in the host's
  \<open>globalState\<close>, with idle suppression); the first variant is quoted where a claim
  refers to it.

  Modelling decisions:
  \<^item> a JavaScript object is the list of its own properties in enumeration order.
    For keys that are not array indices this is insertion order; date keys and the
    results of \<open>path.extname\<close> (empty, or starting with a dot) are never array
    indices, and the project level is never enumerated;
  \<^item> the operations of the tracker are modelled on own properties. A project whose
    name is a member of \<open>Object.prototype\<close> (\<open>constructor\<close>, \<open>toString\<close>,
    \<open>__proto__\<close>, ...) is read through the prototype chain by the code; for the
    creation of buckets, where this decides what is created, lines 244 to 247 are
    modelled a second time on the objects with their prototype chain
    (\<open>ensureBucket\<close>), and the two models agree for every other project name as
    long as nothing has been written on \<open>Object.prototype\<close>;
  \<^item> a number is an \<open>int\<close>: the stored values are millisecond counts, on which
    doubles are exact below \<open>2^53\<close>. Where the code divides, the quotient is rounded
    to the nearest double as the language does;
  \<^item> the module's variables and the parts of the host they act on (the stored
    \<open>projectStats\<close> key of \<open>globalState\<close>, the table of running intervals, the
    messages shown) are the fields of one record, passed through every operation;
  \<^item> the clock, the workspace folder name and the active file's extension are
    arguments of the operation that reads them;
  \<^item> \<open>globalState\<close> holds values: \<open>get\<close> gives the stored value, or the caller's
    default when the key is absent (a default that the host does not keep), and
    \<open>update\<close> overwrites the stored value. A host that hands out its own object
    would let a later write in place show through; the sample sessions that lose a
    bucket start from an absent key, where \<open>get\<close> returns a new \<open>{}\<close> on every
    call under either reading.
\<close>

subsection \<open>Objects\<close>

type_synonym 'v obj = "(string \<times> 'v) list"

text \<open>\<open>o[k]\<close>: the own property, \<open>None\<close> for \<open>undefined\<close>.\<close>

fun obj_get :: "'v obj \<Rightarrow> string \<Rightarrow> 'v option" where
  "obj_get [] k = None"
| "obj_get ((k', v) # rest) k = (if k' = k then Some v else obj_get rest k)"

text \<open>\<open>o[k] = v\<close>: an existing property keeps its place, a new one goes last.\<close>

fun obj_set :: "string \<Rightarrow> 'v \<Rightarrow> 'v obj \<Rightarrow> 'v obj" where
  "obj_set k v [] = [(k, v)]"
| "obj_set k v ((k', v') # rest) =
     (if k' = k then (k, v) # rest else (k', v') # obj_set k v rest)"

subsection \<open>The store\<close>

text \<open>\<open>{ totalTime: number, fileStats: { [key: string]: number } }\<close>\<close>

record bucket =
  totalTime :: int
  fileStats :: "int obj"

type_synonym stats = "bucket obj obj"

definition lookup_bucket :: "stats \<Rightarrow> string \<Rightarrow> string \<Rightarrow> bucket option" where
  "lookup_bucket s p d = (case obj_get s p of None \<Rightarrow> None | Some days \<Rightarrow> obj_get days d)"

text \<open>\<open>x || 0\<close> on a number that may be \<open>undefined\<close>.\<close>

definition or_zero :: "int option \<Rightarrow> int" where
  "or_zero x = (case x of None \<Rightarrow> 0 | Some t \<Rightarrow> if t = 0 then 0 else t)"

text \<open>The exception of a property read on \<open>undefined\<close> or \<open>null\<close>.\<close>

datatype js_error = TypeError

subsection \<open>What \<open>globalState.get\<close> returns\<close>

text \<open>
  \<open>get\<close> is generic: the declared type of \<open>projectStats\<close> is not checked when the
  program runs, and the stored payload is whatever JSON value the host holds. The
  load expression \<open>context.globalState.get('projectStats', {}) || {}\<close> is therefore
  modelled on JSON values first.
\<close>

datatype json =
    JNull
  | JBool bool
  | JNum int
  | JStr string
  | JArr "json list"
  | JObj "(string \<times> json) list"

fun truthy :: "json \<Rightarrow> bool" where
  "truthy JNull = False"
| "truthy (JBool b) = b"
| "truthy (JNum n) = (n \<noteq> 0)"
| "truthy (JStr s) = (s \<noteq> [])"
| "truthy (JArr xs) = True"
| "truthy (JObj kvs) = True"

definition memento_get :: "'a option \<Rightarrow> 'a \<Rightarrow> 'a" where
  "memento_get stored dflt = (case stored of None \<Rightarrow> dflt | Some v \<Rightarrow> v)"

definition load_payload :: "json option \<Rightarrow> json" where
  "load_payload stored =
     (let v = memento_get stored (JObj []) in if truthy v then v else JObj [])"

text \<open>
  The persisted state schema:
  \<open>{ [project]: { [dateKey]: { totalTime: number, fileStats: { [ext]: number } } } }\<close>.
\<close>

fun is_num :: "json \<Rightarrow> bool" where
  "is_num (JNum n) = True"
| "is_num j = False"

fun conforms_fileStats :: "json \<Rightarrow> bool" where
  "conforms_fileStats (JObj kvs) = list_all (\<lambda>kv. is_num (snd kv)) kvs"
| "conforms_fileStats j = False"

fun conforms_bucket :: "json \<Rightarrow> bool" where
  "conforms_bucket (JObj kvs) =
     (case (obj_get kvs ''totalTime'', obj_get kvs ''fileStats'') of
        (Some t, Some fs) \<Rightarrow> is_num t \<and> conforms_fileStats fs
      | _ \<Rightarrow> False)"
| "conforms_bucket j = False"

fun conforms_days :: "json \<Rightarrow> bool" where
  "conforms_days (JObj kvs) = list_all (\<lambda>kv. conforms_bucket (snd kv)) kvs"
| "conforms_days j = False"

fun conforms_stats :: "json \<Rightarrow> bool" where
  "conforms_stats (JObj kvs) = list_all (\<lambda>kv. conforms_days (snd kv)) kvs"
| "conforms_stats j = False"

text \<open>The JSON value of a store that has the declared type.\<close>

definition encode_fileStats :: "int obj \<Rightarrow> json" where
  "encode_fileStats fs = JObj (map (\<lambda>kv. (fst kv, JNum (snd kv))) fs)"

definition encode_bucket :: "bucket \<Rightarrow> json" where
  "encode_bucket b =
     JObj [(''totalTime'', JNum (totalTime b)), (''fileStats'', encode_fileStats (fileStats b))]"

definition encode_days :: "bucket obj \<Rightarrow> json" where
  "encode_days ds = JObj (map (\<lambda>kv. (fst kv, encode_bucket (snd kv))) ds)"

definition encode_stats :: "stats \<Rightarrow> json" where
  "encode_stats s = JObj (map (\<lambda>kv. (fst kv, encode_days (snd kv))) s)"

text \<open>
  On a payload of the declared type the same expression: an object is truthy, so
  \<open>|| {}\<close> never replaces it.
\<close>

definition load :: "stats option \<Rightarrow> stats" where
  "load stored = memento_get stored []"

subsection \<open>The first variant's load\<close>

text \<open>
  \<open>loadTimeTrackingData\<close> of the first variant reads a file and parses it. The record
  holds the module variables that the callback of \<open>fs.readFile\<close> assigns (named with a
  final \<open>1\<close>, the second variant has variables of the same names) and the error
  messages shown. Whatever was parsed is assigned unchecked, so the variables hold
  JSON values. The outcome of the read (\<open>None\<close> for an error), \<open>JSON.parse\<close> (\<open>Inl\<close>
  the message of its \<open>SyntaxError\<close>) and the message of the engine's \<open>TypeError\<close> for
  a property of \<open>null\<close> are arguments.
\<close>

record tracker1 =
  projectStats1 :: json
  projectName1 :: json
  startDate1 :: json
  totalTimeSpent1 :: json
  errorMessages1 :: "string list"

definition module_load1 :: tracker1 where
  "module_load1 =
     \<lparr>projectStats1 = JObj [], projectName1 = JStr [], startDate1 = JStr [],
      totalTimeSpent1 = JNum 0, errorMessages1 = []\<rparr>"

definition showErrorMessage :: "string \<Rightarrow> tracker1 \<Rightarrow> tracker1" where
  "showErrorMessage m st = st\<lparr>errorMessages1 := errorMessages1 st @ [m]\<rparr>"

text \<open>
  \<open>v.k\<close> for one of the four names read here: a property of \<open>null\<close> throws, an
  object gives its own property, every other value gives \<open>undefined\<close>.
\<close>

fun get_prop :: "json \<Rightarrow> string \<Rightarrow> js_error + json option" where
  "get_prop JNull k = Inl TypeError"
| "get_prop (JObj kvs) k = Inr (obj_get kvs k)"
| "get_prop v k = Inr None"

definition truthy_opt :: "json option \<Rightarrow> bool" where
  "truthy_opt x = (case x of None \<Rightarrow> False | Some v \<Rightarrow> truthy v)"

definition prop_or_undefined :: "json \<Rightarrow> string \<Rightarrow> json option" where
  "prop_or_undefined v k = (case get_prop v k of Inl e \<Rightarrow> None | Inr x \<Rightarrow> x)"

definition loadTimeTrackingData ::
  "(string \<Rightarrow> string + json) \<Rightarrow> string \<Rightarrow> string option \<Rightarrow> tracker1 \<Rightarrow> tracker1" where
  "loadTimeTrackingData parse null_message file st =
     (case file of
        None \<Rightarrow> st
      | Some data \<Rightarrow>
          (case parse data of
             Inl syntax_message \<Rightarrow>
               showErrorMessage (''Error parsing time tracking data: '' @ syntax_message) st
           | Inr parsedData \<Rightarrow>
               (case get_prop parsedData ''projectStats'' of
                  Inl e \<Rightarrow>
                    showErrorMessage (''Error parsing time tracking data: '' @ null_message) st
                | Inr ps \<Rightarrow>
                    (case ps of
                       None \<Rightarrow> st
                     | Some stats_v \<Rightarrow>
                         if truthy stats_v then
                           (let st1 = st\<lparr>projectStats1 := stats_v\<rparr>;
                                pn = prop_or_undefined parsedData ''projectName'';
                                sd = prop_or_undefined parsedData ''startDate'';
                                tt = prop_or_undefined parsedData ''totalTimeSpent'';
                                st2 = (case (pn, sd) of
                                         (Some n, Some d) \<Rightarrow>
                                           if truthy n \<and> truthy d
                                           then st1\<lparr>projectName1 := n, startDate1 := d\<rparr>
                                           else st1
                                       | _ \<Rightarrow> st1)
                            in case tt of
                                 None \<Rightarrow> st2
                               | Some t \<Rightarrow>
                                   if truthy t then st2\<lparr>totalTimeSpent1 := t\<rparr> else st2)
                         else st))))"

subsection \<open>Dates\<close>

text \<open>
  \<open>Date\<close> belongs to the language, not to the repository. A time value is the number
  of milliseconds since the epoch; \<open>tza\<close> is the offset of local time from UTC in
  milliseconds at that moment. \<open>toISOString\<close> renders the UTC fields, \<open>getDay\<close> the
  weekday of the local time.
\<close>

definition msPerDay :: int where
  "msPerDay = 86400000"

definition Day :: "int \<Rightarrow> int" where
  "Day t = t div msPerDay"

definition TimeWithinDay :: "int \<Rightarrow> int" where
  "TimeWithinDay t = t mod msPerDay"

text \<open>Year, month (1 to 12) and day of the month of a day number.\<close>

definition civil_from_days :: "int \<Rightarrow> int \<times> int \<times> int" where
  "civil_from_days z =
     (let z' = z + 719468;
          era = z' div 146097;
          doe = z' - era * 146097;
          yoe = (doe - doe div 1460 + doe div 36524 - doe div 146096) div 365;
          y = yoe + era * 400;
          doy = doe - (365 * yoe + yoe div 4 - yoe div 100);
          mp = (5 * doy + 2) div 153;
          d = doy - (153 * mp + 2) div 5 + 1;
          m = (if mp < 10 then mp + 3 else mp - 9)
      in (if m \<le> 2 then y + 1 else y, m, d))"

definition digit :: "nat \<Rightarrow> char" where
  "digit n = char_of (48 + n mod 10)"

fun padded :: "nat \<Rightarrow> nat \<Rightarrow> string" where
  "padded 0 n = []"
| "padded (Suc k) n = padded k (n div 10) @ [digit n]"

definition iso_year :: "int \<Rightarrow> string" where
  "iso_year y =
     (if 0 \<le> y \<and> y \<le> 9999 then padded 4 (nat y)
      else (if y < 0 then ''-'' else ''+'') @ padded 6 (nat \<bar>y\<bar>))"

definition iso_date :: "int \<Rightarrow> string" where
  "iso_date t =
     (case civil_from_days (Day t) of
        (y, m, d) \<Rightarrow> iso_year y @ ''-'' @ padded 2 (nat m) @ ''-'' @ padded 2 (nat d))"

definition toISOString :: "int \<Rightarrow> string" where
  "toISOString t =
     (let w = TimeWithinDay t
      in iso_date t @ ''T'' @ padded 2 (nat (w div 3600000)) @ '':''
           @ padded 2 (nat (w div 60000 mod 60)) @ '':''
           @ padded 2 (nat (w div 1000 mod 60)) @ ''.''
           @ padded 3 (nat (w mod 1000)) @ ''Z'')"

definition getDay :: "int \<Rightarrow> int \<Rightarrow> nat" where
  "getDay t tza = nat ((Day (t + tza) + 4) mod 7)"

definition dayNames :: "string list" where
  "dayNames = [''Sunday'', ''Monday'', ''Tuesday'', ''Wednesday'', ''Thursday'',
               ''Friday'', ''Saturday'']"

text \<open>\<open>s.split('T')[0]\<close>\<close>

definition split_T_0 :: "string \<Rightarrow> string" where
  "split_T_0 s = takeWhile (\<lambda>c. c \<noteq> CHR ''T'') s"

definition getCurrentDate :: "int \<Rightarrow> int \<Rightarrow> string" where
  "getCurrentDate t tza =
     split_T_0 (toISOString t) @ '' ('' @ dayNames ! getDay t tza @ '')''"

subsection \<open>The module's state and the host\<close>

text \<open>
  The callback of an interval with the variables it closes over: the accounting tick
  keeps the \<open>currentDate\<close> computed by the call of \<open>startTrackingTime\<close> that created it.
\<close>

datatype callback = TickCb string | StatsCb

record tracker =
  timerStartTime :: "int option"
  timerInterval :: "nat option"
  statsInterval :: "nat option"
  projectName :: string
  projectStats :: stats
  lastActivityTime :: int
  globalState :: "stats option"
  timers :: "(nat \<times> int \<times> callback) list"
  nextTimer :: nat
  messages :: "string list"

definition setInterval :: "callback \<Rightarrow> int \<Rightarrow> tracker \<Rightarrow> nat \<times> tracker" where
  "setInterval cb period st =
     (nextTimer st,
      st\<lparr>timers := timers st @ [(nextTimer st, period, cb)],
         nextTimer := Suc (nextTimer st)\<rparr>)"

definition clearInterval :: "nat \<Rightarrow> tracker \<Rightarrow> tracker" where
  "clearInterval h st = st\<lparr>timers := filter (\<lambda>e. fst e \<noteq> h) (timers st)\<rparr>"

definition showInformationMessage :: "string \<Rightarrow> tracker \<Rightarrow> tracker" where
  "showInformationMessage m st = st\<lparr>messages := messages st @ [m]\<rparr>"

text \<open>The module's top level, run at time \<open>now\<close> on a host whose store holds \<open>stored\<close>.\<close>

definition module_load :: "int \<Rightarrow> stats option \<Rightarrow> tracker" where
  "module_load now stored =
     \<lparr>timerStartTime = None, timerInterval = None, statsInterval = None,
      projectName = [], projectStats = [], lastActivityTime = now,
      globalState = stored, timers = [], nextTimer = 0, messages = []\<rparr>"

subsection \<open>The operations\<close>

definition activate :: "tracker \<Rightarrow> tracker" where
  "activate st = st\<lparr>projectStats := load (globalState st)\<rparr>"

definition onUserActivity :: "int \<Rightarrow> tracker \<Rightarrow> tracker" where
  "onUserActivity now st = st\<lparr>lastActivityTime := now\<rparr>"

text \<open>
  Lines 244 to 247 of \<open>startTrackingTime\<close> on the own properties of the store. A
  stored project or bucket is an object, hence truthy: \<open>!x\<close> holds exactly when the
  property is absent. This is what the lines do when the project name is not the name
  of a member of \<open>Object.prototype\<close>; \<open>ensureBucket\<close> below has the other names.
\<close>

definition ensureBucket_own :: "string \<Rightarrow> string \<Rightarrow> stats \<Rightarrow> stats" where
  "ensureBucket_own p d s =
     (let s1 = (case obj_get s p of None \<Rightarrow> obj_set p [] s | Some days \<Rightarrow> s)
      in case obj_get s1 p of
           None \<Rightarrow> s1
         | Some days \<Rightarrow>
             (case obj_get days d of
                None \<Rightarrow> obj_set p (obj_set d \<lparr>totalTime = 0, fileStats = []\<rparr> days) s1
              | Some b \<Rightarrow> s1))"

subsection \<open>Bucket creation on the objects with their prototype chain\<close>

text \<open>
  \<open>projectStats\<close> and the objects in it are plain objects: a property that is not
  their own is looked up on \<open>Object.prototype\<close>. The names of its function members:
\<close>

definition member_names :: "string list" where
  "member_names =
     [''constructor'', ''hasOwnProperty'', ''isPrototypeOf'', ''propertyIsEnumerable'',
      ''toLocaleString'', ''toString'', ''valueOf'', ''__defineGetter__'',
      ''__defineSetter__'', ''__lookupGetter__'', ''__lookupSetter__'']"

definition inherited_name :: "string \<Rightarrow> bool" where
  "inherited_name p = (p = ''__proto__'' \<or> p \<in> set member_names)"









text \<open>\<open>vscode.workspace.workspaceFolders?.[0]?.name || 'Unknown Project'\<close>\<close>

definition resolve_project :: "string option \<Rightarrow> string" where
  "resolve_project ws =
     (case ws of None \<Rightarrow> ''Unknown Project''
      | Some n \<Rightarrow> if n = [] then ''Unknown Project'' else n)"

definition startTrackingTime :: "int \<Rightarrow> int \<Rightarrow> string option \<Rightarrow> tracker \<Rightarrow> tracker" where
  "startTrackingTime now tza ws st =
     (let st1 = st\<lparr>projectStats := load (globalState st)\<rparr>
      in if timerStartTime st1 \<noteq> None then st1
         else
           let st2 = st1\<lparr>timerStartTime := Some now, projectName := resolve_project ws\<rparr>;
               currentDate = getCurrentDate now tza;
               st3 = st2\<lparr>projectStats :=
                         ensureBucket_own (projectName st2) currentDate (projectStats st2)\<rparr>;
               (h1, st4) = setInterval (TickCb currentDate) 1000 st3;
               st5 = st4\<lparr>timerInterval := Some h1\<rparr>;
               (h2, st6) = setInterval StatsCb (15 * 60 * 1000) st5;
               st7 = st6\<lparr>statsInterval := Some h2\<rparr>
           in showInformationMessage ''Tracking started'' st7)"

text \<open>
  The callback of \<open>timerInterval\<close>. \<open>fileExt\<close> is what
  \<open>path.extname(vscode.window.activeTextEditor?.document.fileName || '')\<close> returns,
  the empty string when there is no extension. \<open>accrue\<close> is lines 252 to 258 on the
  bucket \<open>projectStats[projectName][currentDate]\<close>; reading that bucket when the
  project or the date is \<open>undefined\<close> throws before anything is written. The status
  bar text is display only and is left out.
\<close>

definition accrue :: "string \<Rightarrow> bucket \<Rightarrow> bucket" where
  "accrue fileExt b =
     (let b1 = b\<lparr>totalTime := totalTime b + 1000\<rparr>
      in if fileExt \<noteq> []
         then b1\<lparr>fileStats :=
                   obj_set fileExt (or_zero (obj_get (fileStats b1) fileExt) + 1000)
                     (fileStats b1)\<rparr>
         else b1)"

definition timerInterval_tick :: "string \<Rightarrow> int \<Rightarrow> string \<Rightarrow> tracker \<Rightarrow> js_error + tracker" where
  "timerInterval_tick currentDate now fileExt st =
     (if now - lastActivityTime st > 30000 then Inr st
      else case obj_get (projectStats st) (projectName st) of
             None \<Rightarrow> Inl TypeError
           | Some days \<Rightarrow>
               (case obj_get days currentDate of
                  None \<Rightarrow> Inl TypeError
                | Some b \<Rightarrow>
                    (let s' = obj_set (projectName st)
                                (obj_set currentDate (accrue fileExt b) days)
                                (projectStats st)
                     in Inr (st\<lparr>projectStats := s', globalState := Some s'\<rparr>))))"

definition stopTrackingTime :: "tracker \<Rightarrow> tracker" where
  "stopTrackingTime st =
     (let st1 = (case timerInterval st of None \<Rightarrow> st
                 | Some h \<Rightarrow> (clearInterval h st)\<lparr>timerInterval := None\<rparr>);
          st2 = (case statsInterval st1 of None \<Rightarrow> st1
                 | Some h \<Rightarrow> (clearInterval h st1)\<lparr>statsInterval := None\<rparr>);
          st3 = st2\<lparr>timerStartTime := None\<rparr>
      in showInformationMessage ''Tracking stopped'' st3)"

subsection \<open>Minutes with one decimal\<close>

text \<open>
  \<open>(t / 1000 / 60).toFixed(1)\<close>. A double is the rational number it stands for. Each
  division gives the double nearest to the exact quotient, ties to the even
  significand, 53 bits wide and with the least exponent \<open>-1074\<close>; a millisecond count
  divided by 1000 and by 60 is far from the largest double, so overflow does not
  arise.
\<close>

function bit_length :: "int \<Rightarrow> int" where
  "bit_length n = (if n \<le> 0 then 0 else 1 + bit_length (n div 2))"
  by pat_completeness auto
termination
  by (relation "measure nat") auto

declare bit_length.simps [simp del]

text \<open>For \<open>r > 0\<close>, the \<open>k\<close> with \<open>2^k \<le> r < 2^(k+1)\<close>.\<close>

definition floor_log2 :: "rat \<Rightarrow> int" where
  "floor_log2 r =
     (case quotient_of r of
        (a, b) \<Rightarrow>
          (let k = bit_length a - bit_length b
           in if 2 powi k \<le> r then k else k - 1))"

definition round_half_even :: "rat \<Rightarrow> int" where
  "round_half_even q =
     (let f = \<lfloor>q\<rfloor>; d = q - of_int f
      in if d < 1 / 2 then f else if 1 / 2 < d then f + 1 else if even f then f else f + 1)"

definition to_double :: "rat \<Rightarrow> rat" where
  "to_double r =
     (if r = 0 then 0
      else (let e = max (floor_log2 \<bar>r\<bar>) (- 1022) - 52
            in sgn r * of_int (round_half_even (\<bar>r\<bar> / 2 powi e)) * 2 powi e))"

definition js_div :: "rat \<Rightarrow> rat \<Rightarrow> rat" where
  "js_div x y = to_double (x / y)"

text \<open>\<open>t / 1000 / 60\<close>\<close>

definition minutes :: "int \<Rightarrow> rat" where
  "minutes t = js_div (js_div (of_int t) 1000) 60"

function decimal :: "int \<Rightarrow> string" where
  "decimal n =
     (if n < 10 then [digit (nat n)] else decimal (n div 10) @ [digit (nat (n mod 10))])"
  by pat_completeness auto
termination
  by (relation "measure nat") auto

declare decimal.simps [simp del]

text \<open>
  \<open>x.toFixed(1)\<close> as the language defines it: the sign; then, below \<open>10^21\<close>, the
  integer \<open>n\<close> for which \<open>n / 10\<close> is nearest to \<open>x\<close> (the larger of two), written
  in decimal with at least two digits and a point before the last. At and beyond
  \<open>10^21\<close> the language writes the number in exponent notation instead; that text is
  the argument \<open>fmt\<close>, which no millisecond count below \<open>2^53\<close> reaches
  (\<open>toFixed1_minutes\<close>).
\<close>

definition toFixed1 :: "(rat \<Rightarrow> string) \<Rightarrow> rat \<Rightarrow> string" where
  "toFixed1 fmt x =
     (let s = (if x < 0 then ''-'' else []); a = \<bar>x\<bar>
      in if 10 ^ 21 \<le> a then s @ fmt a
         else (let n = \<lfloor>10 * a + 1 / 2\<rfloor>;
                   m = (if n = 0 then ''0'' else decimal n);
                   m' = (if length m \<le> 1 then ''0'' @ m else m)
               in s @ take (length m' - 1) m' @ ''.'' @ drop (length m' - 1) m'))"


subsection \<open>The report\<close>

text \<open>
  \<open>fmt\<close> is the argument of \<open>toFixed1\<close>. The pictographs of the message are written
  as their UTF-8 bytes.
\<close>

definition bar_chart :: string where
  "bar_chart = [CHR 0xF0, CHR 0x9F, CHR 0x93, CHR 0x8A]"

definition calendar :: string where
  "calendar = [CHR 0xF0, CHR 0x9F, CHR 0x93, CHR 0x85]"

definition clock_three :: string where
  "clock_three = [CHR 0xF0, CHR 0x9F, CHR 0x95, CHR 0x92]"

definition open_folder :: string where
  "open_folder = [CHR 0xF0, CHR 0x9F, CHR 0x93, CHR 0x82]"

fun join :: "string \<Rightarrow> string list \<Rightarrow> string" where
  "join sep [] = []"
| "join sep [x] = x"
| "join sep (x # y # rest) = x @ sep @ join sep (y # rest)"

definition entry_line :: "(rat \<Rightarrow> string) \<Rightarrow> string \<times> int \<Rightarrow> string" where
  "entry_line fmt e =
     ''- '' @ fst e @ '': '' @ toFixed1 fmt (minutes (snd e)) @ '' min''"

definition statsMessage :: "(rat \<Rightarrow> string) \<Rightarrow> string \<Rightarrow> string \<Rightarrow> bucket \<Rightarrow> string" where
  "statsMessage fmt pname currentDate data =
     (let header = bar_chart @ '' **Project: '' @ pname @ ''**'' @ [CHR 0x0A]
                   @ calendar @ '' **'' @ currentDate @ ''**'' @ [CHR 0x0A]
                   @ clock_three @ '' Total: '' @ toFixed1 fmt (minutes (totalTime data))
                   @ '' min'' @ [CHR 0x0A];
          fileEntries = join [CHR 0x0A] (map (entry_line fmt) (fileStats data))
      in header @ (if fileEntries = [] then open_folder @ '' No tracked files''
                   else fileEntries))"

definition showProjectStats :: "(rat \<Rightarrow> string) \<Rightarrow> int \<Rightarrow> int \<Rightarrow> tracker \<Rightarrow> tracker" where
  "showProjectStats fmt now tza st =
     (let st1 = st\<lparr>projectStats := load (globalState st)\<rparr>
      in if projectName st1 = [] then showInformationMessage ''No stats available.'' st1
         else case obj_get (projectStats st1) (projectName st1) of
                None \<Rightarrow> showInformationMessage ''No stats available.'' st1
              | Some days \<Rightarrow>
                  (let currentDate = getCurrentDate now tza
                   in (case obj_get days currentDate of
                         None \<Rightarrow> showInformationMessage ''No tracked time today.'' st1
                       | Some data \<Rightarrow>
                           showInformationMessage
                             (statsMessage fmt (projectName st1) currentDate data) st1)))"

definition deactivate :: "tracker \<Rightarrow> tracker" where
  "deactivate st = stopTrackingTime st"

subsection \<open>The host's event loop\<close>

text \<open>
  What the host can deliver to the activated extension: the three commands, the
  activity signals, and the firing of an interval that is still registered. The
  window-state listener counts as activity only when the window is focused.
\<close>

datatype event =
    Activate
  | StartCommand int int "string option"
  | StopCommand
  | ShowStatsCommand int int
  | TextDocumentChanged int
  | ActiveEditorChanged int
  | WindowStateChanged bool int
  | TimerFires nat int int string
  | Deactivate

definition fire :: "(rat \<Rightarrow> string) \<Rightarrow> nat \<Rightarrow> int \<Rightarrow> int \<Rightarrow> string \<Rightarrow> tracker \<Rightarrow> js_error + tracker" where
  "fire fmt h now tza fileExt st =
     (case map_of (timers st) h of
        None \<Rightarrow> Inr st
      | Some (period, TickCb currentDate) \<Rightarrow> timerInterval_tick currentDate now fileExt st
      | Some (period, StatsCb) \<Rightarrow> Inr (showProjectStats fmt now tza st))"

fun step :: "(rat \<Rightarrow> string) \<Rightarrow> event \<Rightarrow> tracker \<Rightarrow> js_error + tracker" where
  "step fmt Activate st = Inr (activate st)"
| "step fmt (StartCommand now tza ws) st = Inr (startTrackingTime now tza ws st)"
| "step fmt StopCommand st = Inr (stopTrackingTime st)"
| "step fmt (ShowStatsCommand now tza) st = Inr (showProjectStats fmt now tza st)"
| "step fmt (TextDocumentChanged now) st = Inr (onUserActivity now st)"
| "step fmt (ActiveEditorChanged now) st = Inr (onUserActivity now st)"
| "step fmt (WindowStateChanged focused now) st =
     Inr (if focused then onUserActivity now st else st)"
| "step fmt (TimerFires h now tza fileExt) st = fire fmt h now tza fileExt st"
| "step fmt Deactivate st = Inr (deactivate st)"

text \<open>
  An exception that leaves a callback is reported by the host and the loop goes on; the
  tick throws before it writes, so the state is the one before the event.
\<close>

definition exec :: "(rat \<Rightarrow> string) \<Rightarrow> event \<Rightarrow> tracker \<Rightarrow> tracker" where
  "exec fmt ev st = (case step fmt ev st of Inl err \<Rightarrow> st | Inr st' \<Rightarrow> st')"

fun run :: "(rat \<Rightarrow> string) \<Rightarrow> event list \<Rightarrow> tracker \<Rightarrow> tracker" where
  "run fmt [] st = st"
| "run fmt (ev # evs) st = run fmt evs (exec fmt ev st)"

subsection \<open>A session of ticks and activity signals\<close>





subsection \<open>The inequality between \<open>fileStats\<close> and \<open>totalTime\<close>\<close>

definition bucket_ok :: "bucket \<Rightarrow> bool" where
  "bucket_ok b = (sum_list (map snd (fileStats b)) \<le> totalTime b)"

definition stats_ok :: "stats \<Rightarrow> bool" where
  "stats_ok s = list_all (\<lambda>pe. list_all (\<lambda>de. bucket_ok (snd de)) (snd pe)) s"

definition tracker_ok :: "tracker \<Rightarrow> bool" where
  "tracker_ok st = (stats_ok (projectStats st) \<and> stats_ok (load (globalState st)))"

subsection \<open>A first session on a new installation\<close>

text \<open>
  The extension is loaded at time 0 on a host that stores nothing yet, is activated,
  and the start command runs at time 5 with no workspace folder open.
\<close>

definition fresh_running :: tracker where
  "fresh_running = startTrackingTime 5 0 None (activate (module_load 0 None))"



section \<open>Properties\<close>

subsection \<open>Objects\<close>

lemma obj_get_set_same: "obj_get (obj_set k v xs) k = Some v"
  by (induction xs) auto


lemma obj_set_idem: "obj_get xs k = Some v \<Longrightarrow> obj_set k v xs = xs"
  by (induction xs) (auto split: if_splits)

lemma obj_set_twice: "obj_set k v (obj_set k w xs) = obj_set k v xs"
  by (induction xs) auto

lemma obj_get_None_iff: "obj_get xs k = None \<longleftrightarrow> k \<notin> fst ` set xs"
  by (induction xs) (auto split: if_splits)


lemma sum_obj_set:
  "sum_list (map snd (obj_set k v xs)) = sum_list (map snd xs) - or_zero (obj_get xs k) + v"
  by (induction xs) (auto simp: or_zero_def)

lemma list_all_obj_set:
  "list_all Q xs \<Longrightarrow> Q (k, v) \<Longrightarrow> list_all Q (obj_set k v xs)"
  by (induction xs) auto

lemma list_all_obj_get:
  "list_all Q xs \<Longrightarrow> obj_get xs k = Some v \<Longrightarrow> Q (k, v)"
  by (induction xs) (auto split: if_splits)

subsection \<open>Starting\<close>

lemma lookup_ensureBucket_own:
  "lookup_bucket (ensureBucket_own p d s) p d =
     Some (case lookup_bucket s p d of None \<Rightarrow> \<lparr>totalTime = 0, fileStats = []\<rparr> | Some b \<Rightarrow> b)"
  by (simp add: ensureBucket_own_def lookup_bucket_def obj_get_set_same split: option.splits)



lemma startTrackingTime_running:
  "timerStartTime st \<noteq> None \<Longrightarrow>
     startTrackingTime now tza ws st = st\<lparr>projectStats := load (globalState st)\<rparr>"
  by (simp add: startTrackingTime_def)

lemma startTrackingTime_stopped:
  "timerStartTime st = None \<Longrightarrow>
     startTrackingTime now tza ws st =
       st\<lparr>timerStartTime := Some now,
          timerInterval := Some (nextTimer st),
          statsInterval := Some (Suc (nextTimer st)),
          projectName := resolve_project ws,
          projectStats := ensureBucket_own (resolve_project ws) (getCurrentDate now tza)
                            (load (globalState st)),
          timers := timers st @ [(nextTimer st, 1000, TickCb (getCurrentDate now tza)),
                                 (Suc (nextTimer st), 900000, StatsCb)],
          nextTimer := Suc (Suc (nextTimer st)),
          messages := messages st @ [''Tracking started'']\<rparr>"
  by (simp add: startTrackingTime_def setInterval_def showInformationMessage_def Let_def)

text \<open>The date keys of the sample sessions.\<close>

lemma date5: "getCurrentDate 5 0 = ''1970-01-01 (Thursday)''"
  by code_simp



lemma fresh_running_eq:
  "fresh_running =
     \<lparr>timerStartTime = Some 5, timerInterval = Some 0, statsInterval = Some 1,
      projectName = ''Unknown Project'',
      projectStats = [(''Unknown Project'',
                       [(getCurrentDate 5 0, \<lparr>totalTime = 0, fileStats = []\<rparr>)])],
      lastActivityTime = 0, globalState = None,
      timers = [(0, 1000, TickCb (getCurrentDate 5 0)), (1, 900000, StatsCb)],
      nextTimer = 2, messages = [''Tracking started'']\<rparr>"
proof -
  have stopped: "timerStartTime (activate (module_load 0 None)) = None"
    by (simp add: activate_def module_load_def)
  show ?thesis
    unfolding fresh_running_def startTrackingTime_stopped [OF stopped]
    by (simp add: activate_def module_load_def load_def memento_get_def resolve_project_def
          ensureBucket_own_def)
qed


subsection \<open>Idle suppression\<close>

text \<open>
  C1. A tick of the accounting interval that fires when more than 30000 ms have passed
  since the last recorded activity returns without writing: the whole state, and with
  it \<open>totalTime\<close> and every \<open>fileStats\<close> entry of every bucket, is as before.
\<close>

theorem idle_tick_contributes_nothing:
  "now - lastActivityTime st > 30000 \<Longrightarrow> timerInterval_tick d now ext st = Inr st"
  by (simp add: timerInterval_tick_def)

theorem idle_tick_contributes_nothing_witness:
  "40000 - lastActivityTime (startTrackingTime 5 0 None (activate (module_load 0 None))) > 30000
   \<and> timerInterval_tick (getCurrentDate 5 0) 40000 ''.ts''
        (startTrackingTime 5 0 None (activate (module_load 0 None)))
      = Inr (startTrackingTime 5 0 None (activate (module_load 0 None)))"
proof -
  have idle: "40000 - lastActivityTime (startTrackingTime 5 0 None (activate (module_load 0 None))) > 30000"
    by (simp add: startTrackingTime_stopped activate_def module_load_def)
  from idle idle_tick_contributes_nothing [OF idle] show ?thesis by simp
qed

subsection \<open>Bucket creation\<close>












subsection \<open>Accrual\<close>

lemma lookup_bucket_set:
  "obj_get s p = Some days \<Longrightarrow>
     lookup_bucket (obj_set p (obj_set d b days) s) p d = Some b"
  by (simp add: lookup_bucket_def obj_get_set_same)

lemma tick_active:
  assumes "now - lastActivityTime st \<le> 30000"
    and "lookup_bucket (projectStats st) (projectName st) d = Some b"
  shows "\<exists>s'. timerInterval_tick d now e st = Inr (st\<lparr>projectStats := s', globalState := Some s'\<rparr>)
            \<and> lookup_bucket s' (projectName st) d = Some (accrue e b)"
proof -
  from assms(2) obtain days where
    p: "obj_get (projectStats st) (projectName st) = Some days" and
    b: "obj_get days d = Some b"
    by (auto simp: lookup_bucket_def split: option.splits)
  let ?s = "obj_set (projectName st) (obj_set d (accrue e b) days) (projectStats st)"
  from assms(1) p b have
    "timerInterval_tick d now e st = Inr (st\<lparr>projectStats := ?s, globalState := Some ?s\<rparr>)"
    by (simp add: timerInterval_tick_def Let_def)
  moreover from p have "lookup_bucket ?s (projectName st) d = Some (accrue e b)"
    by (rule lookup_bucket_set)
  ultimately show ?thesis by blast
qed





text \<open>
  C10. \<open>lastActivityTime\<close> is set to the time of the module's load. When the clock is
  started after activation and a tick fires at most 30000 ms after the load, with no
  activity signal received in between, the time of last activity is still the load
  time and the tick adds 1000 ms to the bucket's \<open>totalTime\<close>.
\<close>

theorem first_tick_after_load_accrues:
  assumes "t2 - t0 \<le> 30000"
  shows "lastActivityTime (startTrackingTime t1 tza ws (activate (module_load t0 stored))) = t0
         \<and> (\<exists>st2 b1 b2.
               timerInterval_tick (getCurrentDate t1 tza) t2 ext
                 (startTrackingTime t1 tza ws (activate (module_load t0 stored))) = Inr st2
             \<and> lookup_bucket
                 (projectStats (startTrackingTime t1 tza ws (activate (module_load t0 stored))))
                 (resolve_project ws) (getCurrentDate t1 tza) = Some b1
             \<and> lookup_bucket (projectStats st2) (resolve_project ws) (getCurrentDate t1 tza) = Some b2
             \<and> totalTime b2 = totalTime b1 + 1000)"
proof -
  let ?st = "activate (module_load t0 stored)"
  let ?st1 = "startTrackingTime t1 tza ws ?st"
  let ?d = "getCurrentDate t1 tza"
  have stopped: "timerStartTime ?st = None"
    by (simp add: activate_def module_load_def)
  have la: "lastActivityTime ?st1 = t0"
    unfolding startTrackingTime_stopped [OF stopped]
    by (simp add: activate_def module_load_def)
  have pn: "projectName ?st1 = resolve_project ws"
    by (simp add: startTrackingTime_stopped [OF stopped])
  have "\<exists>b1. lookup_bucket (projectStats ?st1) (projectName ?st1) ?d = Some b1"
    by (simp add: startTrackingTime_stopped [OF stopped] lookup_ensureBucket_own)
  then obtain b1 where b1: "lookup_bucket (projectStats ?st1) (projectName ?st1) ?d = Some b1" ..
  from assms la have act: "t2 - lastActivityTime ?st1 \<le> 30000" by simp
  from tick_active [OF act b1, of ext] obtain s' where
    t: "timerInterval_tick ?d t2 ext ?st1 = Inr (?st1\<lparr>projectStats := s', globalState := Some s'\<rparr>)"
    and l: "lookup_bucket s' (projectName ?st1) ?d = Some (accrue ext b1)" by blast
  have tt: "totalTime (accrue ext b1) = totalTime b1 + 1000"
    by (simp add: accrue_def Let_def)
  from la t l b1 tt show ?thesis
    unfolding pn by (intro conjI exI [of _ "?st1\<lparr>projectStats := s', globalState := Some s'\<rparr>"]
                          exI [of _ b1] exI [of _ "accrue ext b1"]) simp_all
qed

theorem first_tick_after_load_accrues_witness:
  "(30000::int) - 0 \<le> 30000
   \<and> lastActivityTime (startTrackingTime 29000 0 None (activate (module_load 0 None))) = 0
   \<and> (\<exists>st2 b1 b2.
               timerInterval_tick (getCurrentDate 29000 0) 30000 ''.ts''
                 (startTrackingTime 29000 0 None (activate (module_load 0 None))) = Inr st2
             \<and> lookup_bucket
                 (projectStats (startTrackingTime 29000 0 None (activate (module_load 0 None))))
                 (resolve_project None) (getCurrentDate 29000 0) = Some b1
             \<and> lookup_bucket (projectStats st2) (resolve_project None) (getCurrentDate 29000 0) = Some b2
             \<and> totalTime b2 = totalTime b1 + 1000)"
proof -
  have h: "(30000::int) - 0 \<le> 30000" by simp
  from first_tick_after_load_accrues [OF h, of 29000 0 None None "''.ts''"] h show ?thesis
    by blast
qed

subsection \<open>The sum of \<open>fileStats\<close> never exceeds \<open>totalTime\<close>\<close>

lemma accrue_effect:
  "totalTime (accrue e b) = totalTime b + 1000
   \<and> sum_list (map snd (fileStats (accrue e b)))
       = sum_list (map snd (fileStats b)) + (if e = [] then 0 else 1000)"
  by (simp add: accrue_def Let_def sum_obj_set)

lemma bucket_ok_accrue: "bucket_ok b \<Longrightarrow> bucket_ok (accrue e b)"
  using accrue_effect [of e b] by (simp add: bucket_ok_def)

lemma stats_ok_lookup:
  assumes "stats_ok s" and "lookup_bucket s p d = Some b"
  shows "bucket_ok b"
proof -
  from assms(2) obtain days where p: "obj_get s p = Some days" and d: "obj_get days d = Some b"
    by (auto simp: lookup_bucket_def split: option.splits)
  from assms(1) p have "list_all (\<lambda>de. bucket_ok (snd de)) days"
    unfolding stats_ok_def by (drule_tac list_all_obj_get) auto
  from list_all_obj_get [OF this d] show ?thesis by simp
qed

lemma stats_ok_set:
  assumes "stats_ok s" and "obj_get s p = Some days" and "bucket_ok b"
  shows "stats_ok (obj_set p (obj_set d b days) s)"
proof -
  from assms(1,2) have "list_all (\<lambda>de. bucket_ok (snd de)) days"
    unfolding stats_ok_def by (drule_tac list_all_obj_get) auto
  with assms(3) have "list_all (\<lambda>de. bucket_ok (snd de)) (obj_set d b days)"
    by (intro list_all_obj_set) simp_all
  with assms(1) show ?thesis
    unfolding stats_ok_def by (intro list_all_obj_set) simp_all
qed

lemma stats_ok_ensureBucket_own: "stats_ok s \<Longrightarrow> stats_ok (ensureBucket_own p d s)"
proof -
  assume ok: "stats_ok s"
  have zero: "bucket_ok \<lparr>totalTime = 0, fileStats = []\<rparr>" by (simp add: bucket_ok_def)
  have ok1: "stats_ok (obj_set p [] s)"
    using ok unfolding stats_ok_def by (intro list_all_obj_set) simp_all
  show ?thesis
  proof (cases "obj_get s p")
    case None
    have "obj_get (obj_set p [] s) p = Some []" by (rule obj_get_set_same)
    from stats_ok_set [OF ok1 this zero, of d] None show ?thesis
      by (simp add: ensureBucket_own_def obj_get_set_same)
  next
    case (Some days)
    from stats_ok_set [OF ok Some zero, of d] ok Some show ?thesis
      by (simp add: ensureBucket_own_def split: option.splits)
  qed
qed

lemma tracker_ok_activate: "tracker_ok st \<Longrightarrow> tracker_ok (activate st)"
  by (simp add: tracker_ok_def activate_def)

lemma tracker_ok_onUserActivity: "tracker_ok st \<Longrightarrow> tracker_ok (onUserActivity now st)"
  by (simp add: tracker_ok_def onUserActivity_def)

lemma tracker_ok_start: "tracker_ok st \<Longrightarrow> tracker_ok (startTrackingTime now tza ws st)"
  by (cases "timerStartTime st")
     (simp_all add: tracker_ok_def startTrackingTime_stopped startTrackingTime_running
        stats_ok_ensureBucket_own)

lemma tracker_ok_stop: "tracker_ok st \<Longrightarrow> tracker_ok (stopTrackingTime st)"
  by (simp add: tracker_ok_def stopTrackingTime_def clearInterval_def
        showInformationMessage_def Let_def split: option.splits)

lemma showProjectStats_effect:
  "\<exists>m. showProjectStats fmt now tza st =
          st\<lparr>projectStats := load (globalState st), messages := messages st @ [m]\<rparr>"
  by (auto simp: showProjectStats_def showInformationMessage_def Let_def split: option.splits)

lemma tracker_ok_show: "tracker_ok st \<Longrightarrow> tracker_ok (showProjectStats fmt now tza st)"
proof -
  assume ok: "tracker_ok st"
  obtain m where "showProjectStats fmt now tza st =
      st\<lparr>projectStats := load (globalState st), messages := messages st @ [m]\<rparr>"
    using showProjectStats_effect by blast
  with ok show ?thesis by (simp add: tracker_ok_def)
qed

lemma tracker_ok_tick:
  assumes "tracker_ok st" and "timerInterval_tick d now e st = Inr st'"
  shows "tracker_ok st'"
proof (cases "now - lastActivityTime st > 30000")
  case True
  with assms show ?thesis by (simp add: timerInterval_tick_def)
next
  case False
  with assms(2) obtain days b where
    p: "obj_get (projectStats st) (projectName st) = Some days" and
    b: "obj_get days d = Some b" and
    st': "st' = st\<lparr>projectStats := obj_set (projectName st) (obj_set d (accrue e b) days) (projectStats st),
                  globalState := Some (obj_set (projectName st) (obj_set d (accrue e b) days) (projectStats st))\<rparr>"
    by (auto simp: timerInterval_tick_def Let_def split: option.splits)
  from assms(1) have ok: "stats_ok (projectStats st)" by (simp add: tracker_ok_def)
  from p b have "lookup_bucket (projectStats st) (projectName st) d = Some b"
    by (simp add: lookup_bucket_def)
  from stats_ok_lookup [OF ok this] have "bucket_ok (accrue e b)" by (rule bucket_ok_accrue)
  from stats_ok_set [OF ok p this, of d] st' show ?thesis
    by (simp add: tracker_ok_def load_def memento_get_def)
qed

lemma tracker_ok_step:
  assumes "tracker_ok st" and "step fmt ev st = Inr st'"
  shows "tracker_ok st'"
proof (cases ev)
  case (TimerFires h now tza e)
  with assms show ?thesis
    by (auto simp: fire_def tracker_ok_show split: option.splits callback.splits
             dest: tracker_ok_tick)
qed (use assms in \<open>auto simp: tracker_ok_activate tracker_ok_start tracker_ok_stop
        tracker_ok_show tracker_ok_onUserActivity deactivate_def\<close>)

lemma tracker_ok_exec: "tracker_ok st \<Longrightarrow> tracker_ok (exec fmt ev st)"
  by (auto simp: exec_def split: sum.splits dest: tracker_ok_step)

lemma tracker_ok_run: "tracker_ok st \<Longrightarrow> tracker_ok (run fmt evs st)"
  by (induction evs arbitrary: st) (simp_all add: tracker_ok_exec)

lemma tracker_ok_module_load: "stats_ok (load stored) \<Longrightarrow> tracker_ok (module_load t0 stored)"
  by (simp add: tracker_ok_def module_load_def stats_ok_def)

text \<open>
  C5. Take a state in which every bucket of every project, in memory and in the store,
  has the sum of its \<open>fileStats\<close> values at most \<open>totalTime\<close>; the state after the
  module's load is one when the stored payload is (\<open>tracker_ok_module_load\<close>), in
  particular on a host that stores nothing. Let any sequence of events happen:
  activation, the commands, activity signals, firings of registered intervals,
  deactivation. Then every bucket, in memory and in the store, still has the sum of
  its \<open>fileStats\<close> values at most \<open>totalTime\<close>. An accrual adds 1000 to \<open>totalTime\<close>,
  and 1000 to the sum exactly when the extension is non-empty (\<open>accrue_effect\<close>).
\<close>

theorem fileStats_sum_le_totalTime:
  assumes "tracker_ok st0"
    and "st = run fmt evs st0"
    and "lookup_bucket (projectStats st) p d = Some b
         \<or> lookup_bucket (load (globalState st)) p d = Some b"
  shows "sum_list (map snd (fileStats b)) \<le> totalTime b"
proof -
  from assms(1,2) have "tracker_ok st"
    by (simp add: tracker_ok_run)
  with assms(3) have "bucket_ok b"
    by (auto simp: tracker_ok_def dest: stats_ok_lookup)
  then show ?thesis by (simp add: bucket_ok_def)
qed

theorem fileStats_sum_le_totalTime_witness:
  "tracker_ok (module_load 0 None)
   \<and> lookup_bucket
        (projectStats
           (run (\<lambda>t. [])
              [Activate, StartCommand 5 0 (Some ''demo''), TimerFires 0 1005 0 ''.ts'',
               TimerFires 0 2005 0 []]
              (module_load 0 None)))
        ''demo'' ''1970-01-01 (Thursday)''
       = Some \<lparr>totalTime = 2000, fileStats = [(''.ts'', 1000)]\<rparr>
   \<and> sum_list (map snd (fileStats \<lparr>totalTime = 2000, fileStats = [(''.ts'', 1000)]\<rparr>))
       \<le> totalTime \<lparr>totalTime = 2000, fileStats = [(''.ts'', 1000)]\<rparr>"
proof -
  have h1: "tracker_ok (module_load 0 None)"
    by (simp add: tracker_ok_module_load stats_ok_def load_def memento_get_def)
  have h2: "lookup_bucket
        (projectStats
           (run (\<lambda>t. [])
              [Activate, StartCommand 5 0 (Some ''demo''), TimerFires 0 1005 0 ''.ts'',
               TimerFires 0 2005 0 []]
              (module_load 0 None)))
        ''demo'' ''1970-01-01 (Thursday)''
       = Some \<lparr>totalTime = 2000, fileStats = [(''.ts'', 1000)]\<rparr>"
    by (simp add: exec_def fire_def startTrackingTime_def setInterval_def
          showInformationMessage_def activate_def module_load_def load_def memento_get_def
          resolve_project_def ensureBucket_own_def timerInterval_tick_def accrue_def or_zero_def
          lookup_bucket_def date5 Let_def)
  from fileStats_sum_le_totalTime [OF h1 refl disjI1 [OF h2]] h1 h2 show ?thesis
    by blast
qed

subsection \<open>Minutes with one decimal\<close>

















subsection \<open>The report\<close>








text \<open>
  C7. On a new installation, after the start command and before any tick has saved the
  store, the report replaces the structure in memory, which holds the bucket that the
  start created, by the stored one, which is empty. The next tick of the running
  interval then throws. The start command has the same reload in front of its guard
  (C3).
\<close>

theorem report_drops_unsaved_bucket:
  "lookup_bucket (projectStats fresh_running) ''Unknown Project'' ''1970-01-01 (Thursday)''
       = Some \<lparr>totalTime = 0, fileStats = []\<rparr>
   \<and> globalState fresh_running = None
   \<and> projectStats (showProjectStats (\<lambda>t. ''0.0'') 7 0 fresh_running) = []
   \<and> projectStats (showProjectStats (\<lambda>t. ''0.0'') 7 0 fresh_running) \<noteq> projectStats fresh_running
   \<and> messages (showProjectStats (\<lambda>t. ''0.0'') 7 0 fresh_running)
       = [''Tracking started'', ''No stats available.'']
   \<and> timerInterval_tick ''1970-01-01 (Thursday)'' 1005 ''.ts''
        (showProjectStats (\<lambda>t. ''0.0'') 7 0 fresh_running)
       = Inl TypeError"
  by (simp add: fresh_running_eq date5 lookup_bucket_def load_def memento_get_def
        timerInterval_tick_def showProjectStats_def showInformationMessage_def)

subsection \<open>Starting twice\<close>

text \<open>
  C3. On a new installation the start command is given twice before any tick has saved
  the store. The second call registers no interval and leaves the clock running with
  the same project, but the reload that precedes its guard replaces the structure in
  memory by the stored one, which is empty: the bucket created by the first call is
  gone, and the next tick of the running interval throws. In general a start while
  running is exactly that reload (\<open>startTrackingTime_running\<close>).
\<close>

theorem second_start_drops_unsaved_bucket:
  "timerStartTime fresh_running = Some 5
   \<and> timers fresh_running = [(0, 1000, TickCb ''1970-01-01 (Thursday)''), (1, 900000, StatsCb)]
   \<and> lookup_bucket (projectStats fresh_running) ''Unknown Project'' ''1970-01-01 (Thursday)''
       = Some \<lparr>totalTime = 0, fileStats = []\<rparr>
   \<and> globalState fresh_running = None
   \<and> timers (startTrackingTime 6 0 None fresh_running) = timers fresh_running
   \<and> timerStartTime (startTrackingTime 6 0 None fresh_running) = Some 5
   \<and> projectName (startTrackingTime 6 0 None fresh_running) = ''Unknown Project''
   \<and> projectStats (startTrackingTime 6 0 None fresh_running) = []
   \<and> projectStats (startTrackingTime 6 0 None fresh_running) \<noteq> projectStats fresh_running
   \<and> timerInterval_tick ''1970-01-01 (Thursday)'' 1005 ''.ts''
        (startTrackingTime 6 0 None fresh_running)
       = Inl TypeError"
proof -
  have running: "timerStartTime fresh_running \<noteq> None"
    by (simp add: fresh_running_eq)
  show ?thesis
    unfolding startTrackingTime_running [OF running]
    by (simp add: fresh_running_eq date5 lookup_bucket_def load_def memento_get_def
          timerInterval_tick_def)
qed

subsection \<open>The date key\<close>

lemma digit_not_T: "digit n \<noteq> CHR ''T''"
proof
  assume "digit n = CHR ''T''"
  then have "of_char (digit n) = (of_char (CHR ''T'') :: nat)" by simp
  then show False by (simp add: digit_def)
qed

lemma padded_no_T: "CHR ''T'' \<notin> set (padded k n)"
  by (induction k arbitrary: n) (auto simp: digit_not_T [symmetric] dest: sym)

lemma iso_date_no_T: "CHR ''T'' \<notin> set (iso_date t)"
  by (auto simp: iso_date_def iso_year_def padded_no_T split: prod.splits)

lemma takeWhile_upto: "c \<notin> set xs \<Longrightarrow> takeWhile (\<lambda>x. x \<noteq> c) (xs @ c # ys) = xs"
  by (induction xs) auto

lemma getCurrentDate_eq:
  "getCurrentDate t tza = iso_date t @ '' ('' @ dayNames ! getDay t tza @ '')''"
  using takeWhile_upto [OF iso_date_no_T, of t]
  by (simp add: getCurrentDate_def split_T_0_def toISOString_def Let_def)

text \<open>A date key begins with a digit or a sign, so it is no name of a built-in member.\<close>

lemma digit_code: "of_char (digit n) = (48 + n mod 10 :: nat)"
proof -
  have "48 + n mod 10 < 256" by (rule less_trans [of _ 58]) simp_all
  then show ?thesis by (simp add: digit_def)
qed

lemma padded_chars: "c \<in> set (padded k n) \<Longrightarrow> of_char c < (58::nat)"
  by (induction k arbitrary: n) (auto simp: digit_code)

lemma padded_nonempty: "0 < k \<Longrightarrow> padded k n \<noteq> []"
  by (cases k) simp_all

lemma iso_year_head: "iso_year y \<noteq> [] \<and> of_char (hd (iso_year y)) < (58::nat)"
proof (cases "0 \<le> y \<and> y \<le> 9999")
  case True
  have ne: "padded 4 (nat y) \<noteq> []" by (rule padded_nonempty) simp
  then have "hd (padded 4 (nat y)) \<in> set (padded 4 (nat y))" by simp
  then have "of_char (hd (padded 4 (nat y))) < (58::nat)" by (rule padded_chars)
  with ne True show ?thesis by (simp add: iso_year_def)
next
  case False
  then show ?thesis by (simp add: iso_year_def)
qed

lemma getCurrentDate_head:
  "getCurrentDate t tza \<noteq> [] \<and> of_char (hd (getCurrentDate t tza)) < (58::nat)"
proof -
  obtain y m d where c: "civil_from_days (Day t) = (y, m, d)"
    by (cases "civil_from_days (Day t)")
  from iso_year_head [of y] obtain c0 rest where y: "iso_year y = c0 # rest" and "of_char c0 < (58::nat)"
    by (cases "iso_year y") auto
  then show ?thesis by (simp add: getCurrentDate_eq iso_date_def c)
qed

lemma getCurrentDate_not_inherited: "\<not> inherited_name (getCurrentDate t tza)"
proof
  assume "inherited_name (getCurrentDate t tza)"
  then have "getCurrentDate t tza \<in> set (''__proto__'' # member_names)"
    by (simp add: inherited_name_def)
  moreover have "\<forall>n \<in> set (''__proto__'' # member_names). (95::nat) \<le> of_char (hd n)"
    by (simp add: member_names_def)
  ultimately have "(95::nat) \<le> of_char (hd (getCurrentDate t tza))" by blast
  with getCurrentDate_head [of t tza] show False by simp
qed

text \<open>
  C8. The key is the UTC date followed by the name of the local weekday
  (\<open>getCurrentDate_eq\<close>). At 20:30 UTC on Sunday 7 January 2024, on a machine five
  and a half hours ahead of UTC, the local date is Monday 8 January, and the key is
  \<open>2024-01-07 (Monday)\<close>.
\<close>

theorem date_key_mixes_utc_date_and_local_weekday:
  "getCurrentDate 1704659400000 19800000 = ''2024-01-07 (Monday)''
   \<and> split_T_0 (toISOString (1704659400000 + 19800000)) = ''2024-01-08''
   \<and> dayNames ! getDay 1704659400000 0 = ''Sunday''"
  by code_simp

subsection \<open>Loading\<close>

lemma conforms_encode_fileStats: "conforms_fileStats (encode_fileStats fs)"
  by (induction fs) (simp_all add: encode_fileStats_def)

lemma conforms_encode_bucket: "conforms_bucket (encode_bucket b)"
  by (simp add: encode_bucket_def conforms_encode_fileStats)

lemma conforms_encode_days: "conforms_days (encode_days ds)"
  by (induction ds) (simp_all add: encode_days_def conforms_encode_bucket)

lemma conforms_encode_stats: "conforms_stats (encode_stats s)"
  by (induction s) (simp_all add: encode_stats_def conforms_encode_days)

lemma load_payload_encode:
  "load_payload (map_option encode_stats stored) = encode_stats (load stored)"
  by (cases stored) (simp_all add: load_payload_def load_def memento_get_def encode_stats_def)

text \<open>
  C9, as stated, fails: a stored value that does not fit the schema, here an object
  that maps a project to a string, is truthy and becomes the structure in memory.
\<close>

theorem load_keeps_malformed_payload:
  "\<not> conforms_stats (JObj [(''demo'', JStr ''corrupt'')])
   \<and> load_payload (Some (JObj [(''demo'', JStr ''corrupt'')])) = JObj [(''demo'', JStr ''corrupt'')]
   \<and> load_payload (Some (JObj [(''demo'', JStr ''corrupt'')])) \<noteq> JObj []"
  by (simp add: load_payload_def memento_get_def)

text \<open>
  C9, amended. The load expression cannot throw and shows nothing. An absent payload
  and a falsy one (\<open>null\<close>, \<open>false\<close>, \<open>0\<close>, the empty string) give the empty
  structure; every other stored value becomes the structure in memory as it is,
  whether it fits the schema or not. A store of the declared type fits the schema and
  is loaded unchanged.
\<close>

theorem load_payload_cases:
  "load_payload None = JObj []
   \<and> (\<not> truthy v \<longrightarrow> load_payload (Some v) = JObj [])
   \<and> (truthy v \<longrightarrow> load_payload (Some v) = v)
   \<and> conforms_stats (encode_stats s)
   \<and> load_payload (Some (encode_stats s)) = encode_stats s"
proof -
  have "load_payload (Some (encode_stats s)) = encode_stats s"
    using load_payload_encode [of "Some s"] by (simp add: load_def memento_get_def)
  then show ?thesis
    by (simp add: load_payload_def memento_get_def conforms_encode_stats)
qed

theorem load_payload_cases_witness:
  "\<not> truthy JNull \<and> load_payload (Some JNull) = JObj []
   \<and> truthy (JNum 5) \<and> load_payload (Some (JNum 5)) = JNum 5"
  using load_payload_cases [of JNull "[]"] load_payload_cases [of "JNum 5" "[]"]
  by simp

text \<open>
  The first variant, for comparison. A file that cannot be read changes nothing and
  shows nothing. Text that does not parse, and text that parses to \<open>null\<close>, leave the
  variables as they are and show an error message. A parsed object with a truthy
  \<open>projectStats\<close> has that value assigned, whatever it is.
\<close>

lemma loadTimeTrackingData_unreadable:
  "loadTimeTrackingData parse nm None st = st"
  by (simp add: loadTimeTrackingData_def)

lemma loadTimeTrackingData_unparsable:
  "parse data = Inl msg \<Longrightarrow>
     loadTimeTrackingData parse nm (Some data) st =
       st\<lparr>errorMessages1 := errorMessages1 st @ [''Error parsing time tracking data: '' @ msg]\<rparr>"
  by (simp add: loadTimeTrackingData_def showErrorMessage_def)

lemma loadTimeTrackingData_null:
  "parse data = Inr JNull \<Longrightarrow>
     loadTimeTrackingData parse nm (Some data) st =
       st\<lparr>errorMessages1 := errorMessages1 st @ [''Error parsing time tracking data: '' @ nm]\<rparr>"
  by (simp add: loadTimeTrackingData_def showErrorMessage_def)

lemma loadTimeTrackingData_adopts:
  "parse data = Inr (JObj kvs) \<Longrightarrow> obj_get kvs ''projectStats'' = Some v \<Longrightarrow> truthy v \<Longrightarrow>
     projectStats1 (loadTimeTrackingData parse nm (Some data) st) = v
     \<and> errorMessages1 (loadTimeTrackingData parse nm (Some data) st) = errorMessages1 st"
  by (simp add: loadTimeTrackingData_def Let_def split: option.splits prod.splits)

end
